theory Spec2Isabelle
  imports Main "HOL-Library.Word"
begin

unbundle bit_operations_syntax

section \<open>The RGW file-handle layer (src/rgw/rgw_file.h)\<close>

subsection \<open>Machine types and C strings\<close>

type_synonym uint16_t = "16 word"
type_synonym uint32_t = "32 word"
type_synonym uint64_t = "64 word"
type_synonym size_t = "64 word"

text \<open>
  A \<open>std::string\<close> is its byte sequence. A \<open>const char *\<close> is read up to the first
  NUL byte: \<open>c_str s\<close> is what \<open>strlen\<close>, \<open>std::string{p}\<close> and \<open>+= p\<close> see
  through the pointer \<open>s.c_str()\<close>.
\<close>

definition NUL :: char where
  "NUL = CHR 0x00"

definition c_str :: "string \<Rightarrow> string" where
  "c_str s = takeWhile (\<lambda>c. c \<noteq> NUL) s"

subsection \<open>fh\_key\<close>

record rgw_fh_hk =
  bucket :: uint64_t
  object :: uint64_t

definition seed :: uint64_t where
  "seed = 8675309"

text \<open>
  \<open>XXH64(ptr, len, seed)\<close> comes from xxhash.h, which is not part of the sources at hand.
  It is a parameter \<open>XXH64 bytes seed\<close> of every function that hashes, applied to the
  \<open>len\<close> bytes read at \<open>ptr\<close>.
\<close>

type_synonym xxh64 = "string \<Rightarrow> uint64_t \<Rightarrow> uint64_t"

datatype mem_error = OutOfBoundsRead

text \<open>\<open>fh_key(const uint64_t bk, const uint64_t ok)\<close>\<close>

definition fh_key_u64 :: "uint64_t \<Rightarrow> uint64_t \<Rightarrow> rgw_fh_hk" where
  "fh_key_u64 bk ok = \<lparr>bucket = bk, object = ok\<rparr>"

text \<open>\<open>fh_key(const uint64_t bk, const char *_o)\<close>: hashes \<open>strlen(_o)\<close> bytes of \<open>_o\<close>.\<close>

definition fh_key_cstr :: "xxh64 \<Rightarrow> uint64_t \<Rightarrow> string \<Rightarrow> rgw_fh_hk" where
  "fh_key_cstr XXH64 bk o_str = \<lparr>bucket = bk, object = XXH64 (c_str o_str) seed\<rparr>"

text \<open>
  \<open>fh_key(const std::string& _b, const std::string& _o)\<close>. The bucket hash reads
  \<open>_o.length()\<close> bytes at \<open>_b.c_str()\<close>. The buffer behind \<open>_b.c_str()\<close> holds the
  bytes of \<open>_b\<close> and one terminating NUL; a longer read leaves the buffer.
\<close>

definition read_c_str :: "string \<Rightarrow> nat \<Rightarrow> mem_error + string" where
  "read_c_str s len =
     (if len \<le> length s + 1 then Inr (take len (s @ [NUL])) else Inl OutOfBoundsRead)"

definition fh_key_str :: "xxh64 \<Rightarrow> string \<Rightarrow> string \<Rightarrow> mem_error + rgw_fh_hk" where
  "fh_key_str XXH64 b_str o_str =
     (case read_c_str b_str (length o_str) of
        Inl e \<Rightarrow> Inl e
      | Inr bbytes \<Rightarrow>
          (case read_c_str o_str (length o_str) of
             Inl e \<Rightarrow> Inl e
           | Inr obytes \<Rightarrow>
               Inr \<lparr>bucket = XXH64 bbytes seed, object = XXH64 obytes seed\<rparr>))"

subsection \<open>RGWFileHandle\<close>

datatype fh_type = RGW_FS_TYPE_FILE | RGW_FS_TYPE_DIRECTORY

definition FLAG_NONE :: uint32_t where "FLAG_NONE = 0x0000"
definition FLAG_OPEN :: uint32_t where "FLAG_OPEN = 0x0001"
definition FLAG_ROOT :: uint32_t where "FLAG_ROOT = 0x0002"
definition FLAG_CREATE :: uint32_t where "FLAG_CREATE = 0x0004"
definition FLAG_PSEUDO :: uint32_t where "FLAG_PSEUDO = 0x0008"
definition FLAG_DIRECTORY :: uint32_t where "FLAG_DIRECTORY = 0x0010"
definition FLAG_BUCKET :: uint32_t where "FLAG_BUCKET = 0x0020"
definition FLAG_LOCK :: uint32_t where "FLAG_LOCK = 0x0040"

definition MAX_DEPTH :: uint16_t where "MAX_DEPTH = 256"

text \<open>\<open>EPERM\<close> of errno.h.\<close>

definition EPERM :: uint32_t where "EPERM = 1"

text \<open>
  \<open>boost::variant<file, directory>\<close>. A default-constructed variant holds its first
  alternative, \<open>file()\<close> with \<open>write_req = nullptr\<close>. The marker cache is a
  \<open>flat_map<uint64_t, dirent_string>\<close>, of which only \<open>insert\<close> and \<open>find\<close> are
  used: a finite map.
\<close>

datatype variant =
    file_variant (write_req: "nat option")
  | directory_variant (dir_flags: uint32_t) (marker_cache: "uint64_t \<rightharpoonup> string")

text \<open>
  The handle. Pointers to other handles (\<open>parent\<close>, \<open>bucket\<close>) are the handles they
  point to; the root has neither. \<open>fh_type\<close> and \<open>fh_hk\<close> are the fields of the public
  \<open>struct rgw_file_handle fh\<close>; of \<open>state\<close> the device, size and link count are kept.
  The mutex, the owning \<open>fs\<close> pointer, \<open>fh.fh_private\<close> (a pointer to the handle
  itself) and the intrusive hooks carry no data. The field \<open>bucket\<close> is written
  \<open>bucket_ptr\<close>, since \<open>bucket\<close> names a component of the key.
\<close>

datatype RGWFileHandle = RGWFileHandle
  (fh_type: fh_type)
  (fh_hk: rgw_fh_hk)
  (bucket_ptr: "RGWFileHandle option")
  (parent: "RGWFileHandle option")
  (name: string)
  (fhk: rgw_fh_hk)
  (state_dev: uint64_t)
  (state_size: size_t)
  (state_nlink: uint64_t)
  (variant_type: variant)
  (depth: uint16_t)
  (flags: uint32_t)

definition is_open :: "RGWFileHandle \<Rightarrow> bool" where
  "is_open h \<longleftrightarrow> flags h AND FLAG_OPEN \<noteq> 0"

definition is_root :: "RGWFileHandle \<Rightarrow> bool" where
  "is_root h \<longleftrightarrow> flags h AND FLAG_ROOT \<noteq> 0"

definition is_bucket :: "RGWFileHandle \<Rightarrow> bool" where
  "is_bucket h \<longleftrightarrow> flags h AND FLAG_BUCKET \<noteq> 0"

definition is_file :: "RGWFileHandle \<Rightarrow> bool" where
  "is_file h \<longleftrightarrow> fh_type h = RGW_FS_TYPE_FILE"

definition is_dir :: "RGWFileHandle \<Rightarrow> bool" where
  "is_dir h \<longleftrightarrow> fh_type h = RGW_FS_TYPE_DIRECTORY"

definition object_name :: "RGWFileHandle \<Rightarrow> string" where
  "object_name h = name h"

text \<open>Assignment to the field \<open>flags\<close>.\<close>

definition set_flags :: "uint32_t \<Rightarrow> RGWFileHandle \<Rightarrow> RGWFileHandle" where
  "set_flags f h =
     RGWFileHandle (fh_type h) (fh_hk h) (bucket_ptr h) (parent h) (name h) (fhk h)
       (state_dev h) (state_size h) (state_nlink h) (variant_type h) (depth h) f"

text \<open>
  \<open>uint32_t open(uint32_t gsh_flags)\<close>: the updated handle and the return value. The
  lock guard makes the test and the update one step.
\<close>

definition "open" :: "RGWFileHandle \<Rightarrow> uint32_t \<Rightarrow> RGWFileHandle \<times> uint32_t" where
  "open h gsh_flags =
     (if \<not> (flags h AND FLAG_OPEN \<noteq> 0)
      then (set_flags (flags h OR FLAG_OPEN) h, 0)
      else (h, EPERM))"

text \<open>
  The private root constructor \<open>RGWFileHandle(RGWLibFS* _fs, uint32_t fs_inst)\<close>. It
  leaves \<open>fhk\<close>, \<open>fh.fh_hk\<close> and \<open>name\<close> to \<open>init_rootfs\<close>; \<open>hk0\<close> stands for the
  content of the two key fields before that call.
\<close>

definition RGWFileHandle_root :: "uint32_t \<Rightarrow> rgw_fh_hk \<Rightarrow> RGWFileHandle" where
  "RGWFileHandle_root fs_inst hk0 =
     RGWFileHandle RGW_FS_TYPE_DIRECTORY hk0 None None [] hk0
       (ucast fs_inst) 0 1 (file_variant None) 0 FLAG_ROOT"

definition init_rootfs :: "xxh64 \<Rightarrow> string \<Rightarrow> string \<Rightarrow> RGWFileHandle \<Rightarrow> RGWFileHandle" where
  "init_rootfs XXH64 fsid obj_name h =
     (let hk = \<lparr>bucket = XXH64 fsid seed, object = XXH64 obj_name seed\<rparr>
      in RGWFileHandle (fh_type h) hk (bucket_ptr h) (parent h) obj_name hk
           (state_dev h) (state_size h) (state_nlink h) (variant_type h) (depth h) (flags h))"

text \<open>
  The public constructor \<open>RGWFileHandle(fs, fs_inst, _parent, _fhk, _name, _flags)\<close>.
  \<open>depth\<close> is a \<open>uint16_t\<close>, so \<open>parent->depth + 1\<close> is stored modulo \<open>2^16\<close>. The
  variant is not assigned and keeps its default, \<open>file()\<close>; \<open>state()\<close> gives device 0,
  size 0 and one link.
\<close>

definition RGWFileHandle_new ::
  "uint32_t \<Rightarrow> RGWFileHandle \<Rightarrow> rgw_fh_hk \<Rightarrow> string \<Rightarrow> uint32_t \<Rightarrow> RGWFileHandle" where
  "RGWFileHandle_new fs_inst prnt k nm fl =
     (if is_root prnt
      then RGWFileHandle RGW_FS_TYPE_DIRECTORY k None (Some prnt) nm k
             0 0 1 (file_variant None) (depth prnt + 1) (fl OR FLAG_BUCKET)
      else RGWFileHandle
             (if fl AND FLAG_DIRECTORY \<noteq> 0 then RGW_FS_TYPE_DIRECTORY else RGW_FS_TYPE_FILE)
             k
             (if flags prnt AND FLAG_BUCKET \<noteq> 0 then Some prnt else bucket_ptr prnt)
             (Some prnt) nm k
             0 0 1 (file_variant None) (depth prnt + 1) fl)"

subsection \<open>Path names and keys of children\<close>

text \<open>
  \<open>full_object_name\<close>: the \<open>while\<close> loop walks the parent pointers from the handle itself
  up to the first bucket (or past the root) and pushes each name; the \<open>for\<close> loop joins
  the reversed segments with a slash.
\<close>

fun segments :: "RGWFileHandle option \<Rightarrow> string list" where
  "segments None = []"
| "segments (Some (RGWFileHandle t hk b p nm k sd ss sn v d fl)) =
     (if fl AND FLAG_BUCKET \<noteq> 0 then [] else nm # segments p)"

fun join_segments :: "bool \<Rightarrow> string \<Rightarrow> string list \<Rightarrow> string" where
  "join_segments first path [] = path"
| "join_segments first path (s # ss) =
     join_segments False ((if \<not> first then path @ ''/'' else path) @ s) ss"

definition full_object_name :: "RGWFileHandle \<Rightarrow> 8 word \<Rightarrow> string" where
  "full_object_name h min_depth =
     (if unat (depth h) \<le> unat min_depth then []
      else join_segments True [] (rev (segments (Some h))))"

text \<open>
  \<open>make_key_name(const char *name)\<close> and \<open>make_fhk(const std::string& name)\<close>. An
  argument of type \<open>const char *\<close> is passed as the bytes behind it and read with
  \<open>c_str\<close> where the callee reads it.
\<close>

definition make_key_name :: "RGWFileHandle \<Rightarrow> string \<Rightarrow> string" where
  "make_key_name h nm =
     (let key_name = full_object_name h 1;
          key_name = (if length key_name > 0 then key_name @ ''/'' else key_name)
      in key_name @ c_str nm)"

definition make_fhk :: "xxh64 \<Rightarrow> RGWFileHandle \<Rightarrow> string \<Rightarrow> rgw_fh_hk" where
  "make_fhk XXH64 h nm =
     (if depth h \<le> 1 then fh_key_cstr XXH64 (object (fhk h)) nm
      else (let key_name = make_key_name h nm
            in fh_key_cstr XXH64 (object (fhk h)) key_name))"

subsection \<open>Marker cache\<close>

text \<open>
  A \<open>boost::string_ref\<close> is a pointer with a length. \<open>sr_data\<close> holds the bytes of the
  underlying buffer from that pointer on, \<open>sr_length\<close> the number of them that belong to
  the reference. A reference to a whole \<open>std::string\<close>, as the readdir requests build
  it, has the string's bytes and its length.
\<close>

record string_ref =
  sr_data :: string
  sr_length :: nat

definition string_ref_of :: "string \<Rightarrow> string_ref" where
  "string_ref_of str = \<lparr>sr_data = str, sr_length = length str\<rparr>"

text \<open>
  \<open>add_marker\<close> passes \<open>marker.data()\<close>, a \<open>const char *\<close>, to the \<open>dirent_string\<close>
  constructor: the bytes stored are those at the pointer up to the next NUL, whatever the
  length of the reference. \<open>flat_map::insert\<close> keeps an entry that is already there.
\<close>

definition add_marker :: "RGWFileHandle \<Rightarrow> uint64_t \<Rightarrow> string_ref \<Rightarrow> RGWFileHandle" where
  "add_marker h off marker =
     (case variant_type h of
        directory_variant dfl mc \<Rightarrow>
          (case mc off of
             None \<Rightarrow>
               RGWFileHandle (fh_type h) (fh_hk h) (bucket_ptr h) (parent h) (name h) (fhk h)
                 (state_dev h) (state_size h) (state_nlink h)
                 (directory_variant dfl (mc(off \<mapsto> c_str (sr_data marker))))
                 (depth h) (flags h)
           | Some old \<Rightarrow> h)
      | file_variant w \<Rightarrow> h)"

definition find_marker :: "RGWFileHandle \<Rightarrow> uint64_t \<Rightarrow> string" where
  "find_marker h off =
     (case variant_type h of
        directory_variant dfl mc \<Rightarrow> (case mc off of Some m \<Rightarrow> m | None \<Rightarrow> [])
      | file_variant w \<Rightarrow> [])"

subsection \<open>RGWLibFS: the handle cache and its lookups\<close>

text \<open>
  Modelled from the spec: the handle index (C2) and the LRU (C3) of common/cohort\_lru.h,
  which is not among the sources. The index is an association from keys to handles, read
  with \<open>find_latch\<close> and extended with \<open>insert_latched\<close>; its partitions and latches
  serialise threads and hold no data of their own. The LRU is a state \<open>'l\<close> with three
  operations, parameters of the model: \<open>ref\<close> may fail (the handle is being reclaimed),
  \<open>unref\<close> drops a reference, and \<open>insert\<close> hands out an object built by the factory:
  none, a fresh one (\<open>alloc\<close>), or a recycled one whose old key leaves the index.
\<close>

datatype lru_flag = lru_FLAG_NONE | lru_FLAG_INITIAL

datatype lru_outcome = lru_null | lru_alloc | lru_recycle rgw_fh_hk

record 'l lru_ops =
  lru_ref :: "'l \<Rightarrow> RGWFileHandle \<Rightarrow> lru_flag \<Rightarrow> bool \<times> 'l"
  lru_unref :: "'l \<Rightarrow> RGWFileHandle \<Rightarrow> lru_flag \<Rightarrow> 'l"
  lru_insert :: "'l \<Rightarrow> RGWFileHandle \<Rightarrow> lru_outcome \<times> 'l"

record 'l RGWLibFS =
  root_fh :: RGWFileHandle
  fh_cache :: "(rgw_fh_hk \<times> RGWFileHandle) list"
  fh_lru :: 'l
  fs_inst :: uint32_t
  fs_flags :: uint32_t

definition FLAG_CLOSED :: uint32_t where "FLAG_CLOSED = 0x0001"

type_synonym LookupFHResult = "RGWFileHandle option \<times> uint32_t"

definition find_latch :: "(rgw_fh_hk \<times> RGWFileHandle) list \<Rightarrow> rgw_fh_hk \<Rightarrow> RGWFileHandle option" where
  "find_latch cache k = map_of cache k"

definition insert_latched ::
  "(rgw_fh_hk \<times> RGWFileHandle) list \<Rightarrow> RGWFileHandle \<Rightarrow> (rgw_fh_hk \<times> RGWFileHandle) list" where
  "insert_latched cache fh = (fhk fh, fh) # cache"

definition detach :: "(rgw_fh_hk \<times> RGWFileHandle) list \<Rightarrow> rgw_fh_hk \<Rightarrow> (rgw_fh_hk \<times> RGWFileHandle) list" where
  "detach cache victim = filter (\<lambda>e. fst e \<noteq> victim) cache"

text \<open>
  The body of \<open>lookup_fh\<close> from the label \<open>retry\<close> on. Each \<open>goto retry\<close> spends one
  unit of fuel; \<open>None\<close> is a loop that has not left within the fuel given.
\<close>

fun lookup_fh_retry ::
  "nat \<Rightarrow> 'l lru_ops \<Rightarrow> 'l RGWLibFS \<Rightarrow> RGWFileHandle \<Rightarrow> string \<Rightarrow> rgw_fh_hk \<Rightarrow> uint32_t
   \<Rightarrow> ('l RGWLibFS \<times> RGWFileHandle) option" where
  "lookup_fh_retry 0 ops fs prnt obj_name k cflags = None"
| "lookup_fh_retry (Suc fuel) ops fs prnt obj_name k cflags =
     (case find_latch (fh_cache fs) k of
        Some fh \<Rightarrow>
          (case lru_ref ops (fh_lru fs) fh lru_FLAG_INITIAL of
             (True, l) \<Rightarrow> Some (fs\<lparr>fh_lru := l\<rparr>, fh)
           | (False, l) \<Rightarrow> lookup_fh_retry fuel ops (fs\<lparr>fh_lru := l\<rparr>) prnt obj_name k cflags)
      | None \<Rightarrow>
          (let prototype = RGWFileHandle_new (fs_inst fs) prnt k obj_name cflags
           in case lru_insert ops (fh_lru fs) prototype of
                (lru_alloc, l) \<Rightarrow>
                  Some (fs\<lparr>fh_lru := l, fh_cache := insert_latched (fh_cache fs) prototype\<rparr>,
                        prototype)
              | (lru_recycle victim, l) \<Rightarrow>
                  Some (fs\<lparr>fh_lru := l,
                           fh_cache := insert_latched (detach (fh_cache fs) victim) prototype\<rparr>,
                        prototype)
              | (lru_null, l) \<Rightarrow>
                  lookup_fh_retry fuel ops (fs\<lparr>fh_lru := l\<rparr>) prnt obj_name k cflags))"

text \<open>The key \<open>lookup_fh\<close> computes before the label \<open>retry\<close>.\<close>

definition lookup_fh_key :: "xxh64 \<Rightarrow> RGWFileHandle \<Rightarrow> string \<Rightarrow> rgw_fh_hk" where
  "lookup_fh_key XXH64 prnt nm =
     (let key_name = make_key_name prnt nm
      in make_fhk XXH64 prnt key_name)"

definition lookup_fh ::
  "nat \<Rightarrow> xxh64 \<Rightarrow> 'l lru_ops \<Rightarrow> 'l RGWLibFS \<Rightarrow> RGWFileHandle \<Rightarrow> string \<Rightarrow> uint32_t
   \<Rightarrow> ('l RGWLibFS \<times> LookupFHResult) option" where
  "lookup_fh fuel XXH64 ops fs prnt nm cflags =
     (if fs_flags fs AND FLAG_CLOSED \<noteq> 0 then Some (fs, (None, FLAG_NONE))
      else
        (let obj_name = c_str nm;
             k = lookup_fh_key XXH64 prnt nm
         in case lookup_fh_retry fuel ops fs prnt obj_name k cflags of
              None \<Rightarrow> None
            | Some (fs', fh) \<Rightarrow> Some (fs', (Some fh, FLAG_NONE))))"

fun lookup_handle_retry ::
  "nat \<Rightarrow> 'l lru_ops \<Rightarrow> 'l RGWLibFS \<Rightarrow> rgw_fh_hk \<Rightarrow> ('l RGWLibFS \<times> RGWFileHandle option) option" where
  "lookup_handle_retry 0 ops fs k = None"
| "lookup_handle_retry (Suc fuel) ops fs k =
     (case find_latch (fh_cache fs) k of
        None \<Rightarrow> Some (fs, None)
      | Some fh \<Rightarrow>
          (case lru_ref ops (fh_lru fs) fh lru_FLAG_INITIAL of
             (True, l) \<Rightarrow> Some (fs\<lparr>fh_lru := l\<rparr>, Some fh)
           | (False, l) \<Rightarrow> lookup_handle_retry fuel ops (fs\<lparr>fh_lru := l\<rparr>) k))"

definition lookup_handle ::
  "nat \<Rightarrow> 'l lru_ops \<Rightarrow> 'l RGWLibFS \<Rightarrow> rgw_fh_hk \<Rightarrow> ('l RGWLibFS \<times> RGWFileHandle option) option" where
  "lookup_handle fuel ops fs fh_hk_arg =
     (if fs_flags fs AND FLAG_CLOSED \<noteq> 0 then Some (fs, None)
      else lookup_handle_retry fuel ops fs fh_hk_arg)"

definition unref :: "'l lru_ops \<Rightarrow> 'l RGWLibFS \<Rightarrow> RGWFileHandle \<Rightarrow> 'l RGWLibFS" where
  "unref ops fs fh = fs\<lparr>fh_lru := lru_unref ops (fh_lru fs) fh lru_FLAG_NONE\<rparr>"

definition ref :: "'l lru_ops \<Rightarrow> 'l RGWLibFS \<Rightarrow> RGWFileHandle \<Rightarrow> 'l RGWLibFS \<times> RGWFileHandle" where
  "ref ops fs fh = (fs\<lparr>fh_lru := snd (lru_ref ops (fh_lru fs) fh lru_FLAG_NONE)\<rparr>, fh)"

text \<open>
  \<open>close()\<close>: sets FLAG\_CLOSED, then drains the cache; the visitor \<open>ObjUnref\<close> drops one
  LRU reference of every handle drained.
\<close>

definition close :: "'l lru_ops \<Rightarrow> 'l RGWLibFS \<Rightarrow> 'l RGWLibFS" where
  "close ops fs =
     fs\<lparr>fs_flags := fs_flags fs OR FLAG_CLOSED,
        fh_lru := fold (\<lambda>e l. lru_unref ops l (snd e) lru_FLAG_NONE) (fh_cache fs) (fh_lru fs),
        fh_cache := []\<rparr>"

text \<open>Requests served one after the other by one filesystem context.\<close>

datatype fs_request =
    Lookup_fh RGWFileHandle string uint32_t
  | Lookup_handle rgw_fh_hk

fun serve ::
  "nat \<Rightarrow> xxh64 \<Rightarrow> 'l lru_ops \<Rightarrow> 'l RGWLibFS \<Rightarrow> fs_request
   \<Rightarrow> ('l RGWLibFS \<times> RGWFileHandle option) option" where
  "serve fuel XXH64 ops fs (Lookup_fh prnt nm cflags) =
     (case lookup_fh fuel XXH64 ops fs prnt nm cflags of
        None \<Rightarrow> None
      | Some (fs', fhr) \<Rightarrow> Some (fs', fst fhr))"
| "serve fuel XXH64 ops fs (Lookup_handle k) = lookup_handle fuel ops fs k"

fun serve_all ::
  "nat \<Rightarrow> xxh64 \<Rightarrow> 'l lru_ops \<Rightarrow> 'l RGWLibFS \<Rightarrow> fs_request list
   \<Rightarrow> ('l RGWLibFS \<times> RGWFileHandle option list) option" where
  "serve_all fuel XXH64 ops fs [] = Some (fs, [])"
| "serve_all fuel XXH64 ops fs (r # rs) =
     (case serve fuel XXH64 ops fs r of
        None \<Rightarrow> None
      | Some (fs', fh) \<Rightarrow>
          (case serve_all fuel XXH64 ops fs' rs of
             None \<Rightarrow> None
           | Some (fs'', fhs) \<Rightarrow> Some (fs'', fh # fhs)))"

subsection \<open>RGWReadRequest\<close>

text \<open>
  \<open>send_response_data(bl, s_off, e_off)\<close> of the get-object request. A buffer of the
  list is its bytes; \<open>bp.length()\<close> is an \<open>unsigned\<close>. \<open>off_t\<close> is a signed 64-bit
  integer, kept as its bit pattern, which is also what \<open>size_t(e_off)\<close> reads. Each
  \<open>memcpy(ulp_buffer + off, bp.c_str() + s_off, bytes)\<close> is recorded in \<open>copies\<close> as
  \<open>(off, s_off, bytes)\<close>.
\<close>

record RGWReadRequest =
  nread :: size_t
  read_len :: size_t
  copies :: "(uint64_t \<times> uint64_t \<times> size_t) list"

definition bp_length :: "string \<Rightarrow> uint32_t" where
  "bp_length bp = of_nat (length bp)"

fun send_response_loop ::
  "string list \<Rightarrow> RGWReadRequest \<Rightarrow> uint64_t \<Rightarrow> uint64_t \<Rightarrow> uint64_t \<Rightarrow> RGWReadRequest" where
  "send_response_loop [] r off s_off e_off = r"
| "send_response_loop (bp # bps) r off s_off e_off =
     (if nread r \<ge> read_len r then r
      else
        (let bytes = min (min (read_len r) (ucast (bp_length bp))) e_off
         in send_response_loop bps
              (r\<lparr>nread := nread r + bytes, copies := copies r @ [(off, s_off, bytes)]\<rparr>)
              (off + bytes) (s_off - bytes) e_off))"

definition send_response_data ::
  "RGWReadRequest \<Rightarrow> string list \<Rightarrow> uint64_t \<Rightarrow> uint64_t \<Rightarrow> RGWReadRequest \<times> int" where
  "send_response_data r bl s_off e_off = (send_response_loop bl r 0 s_off e_off, 0)"

text \<open>The constructor: \<open>nread(0)\<close>, \<open>read_len(len)\<close>.\<close>

definition RGWReadRequest_new :: "uint64_t \<Rightarrow> uint64_t \<Rightarrow> RGWReadRequest" where
  "RGWReadRequest_new off len = \<lparr>nread = 0, read_len = len, copies = []\<rparr>"

section \<open>Sessions (src/mds/SessionMap.h)\<close>

type_synonym inodeno_t = uint64_t
type_synonym tid_t = uint64_t

text \<open>
  Modelled from the spec: \<open>interval_set<inodeno_t>\<close> (include/interval\_set.h is not among
  the sources). The spec calls it a sorted set of disjoint inode-number ranges; it is
  modelled as the set of the numbers in its ranges. \<open>start()\<close> is the least of them and
  has no value on the empty set.
\<close>

type_synonym 'a interval_set = "'a set"

definition iset_empty :: "inodeno_t interval_set \<Rightarrow> bool" where
  "iset_empty s \<longleftrightarrow> s = {}"

definition iset_start :: "inodeno_t interval_set \<Rightarrow> inodeno_t option" where
  "iset_start s = (if s = {} then None else Some (Min s))"

definition iset_contains :: "inodeno_t interval_set \<Rightarrow> inodeno_t \<Rightarrow> bool" where
  "iset_contains s i \<longleftrightarrow> i \<in> s"

definition iset_erase :: "inodeno_t interval_set \<Rightarrow> inodeno_t \<Rightarrow> inodeno_t interval_set" where
  "iset_erase s i = s - {i}"

definition iset_insert ::
  "inodeno_t interval_set \<Rightarrow> inodeno_t \<Rightarrow> inodeno_t \<Rightarrow> inodeno_t interval_set" where
  "iset_insert s start len = s \<union> set (map (\<lambda>i. start + of_nat i) [0..<unat len])"

definition iset_insert_set ::
  "inodeno_t interval_set \<Rightarrow> inodeno_t interval_set \<Rightarrow> inodeno_t interval_set" where
  "iset_insert_set s a = s \<union> a"

text \<open>
  The session. \<open>inst\<close> (an \<open>entity_inst_t\<close>) is a number that names the client; the
  intrusive lists (\<open>requests\<close>, \<open>caps\<close>, \<open>leases\<close>) and \<open>last_cap_renew\<close> take no part
  in the functions modelled.
\<close>

type_synonym entity_inst_t = nat

record Session =
  state :: int
  state_seq :: uint64_t
  inst :: entity_inst_t
  pending_prealloc_inos :: "inodeno_t interval_set"
  prealloc_inos :: "inodeno_t interval_set"
  used_inos :: "inodeno_t interval_set"
  cap_push_seq :: uint64_t
  completed_requests :: "tid_t set"

text \<open>
  \<open>take_ino\<close>. The failed \<open>assert(!prealloc_inos.empty())\<close> is the failure the spec calls
  NO\_PREALLOC.
\<close>

datatype session_error = NO_PREALLOC

definition take_ino :: "Session \<Rightarrow> inodeno_t \<Rightarrow> session_error + (inodeno_t \<times> Session)" where
  "take_ino s ino =
     (if iset_empty (prealloc_inos s) then Inl NO_PREALLOC
      else
        (let (ino1, s1) =
               (if ino \<noteq> 0
                then (if iset_contains (prealloc_inos s) ino
                      then (ino, s\<lparr>prealloc_inos := iset_erase (prealloc_inos s) ino\<rparr>)
                      else (0, s))
                else (ino, s))
         in (if ino1 = 0
             then (case iset_start (prealloc_inos s1) of
                     None \<Rightarrow> Inl NO_PREALLOC
                   | Some ino2 \<Rightarrow>
                       Inr (ino2, s1\<lparr>prealloc_inos := iset_erase (prealloc_inos s1) ino2,
                                     used_inos := iset_insert (used_inos s1) ino2 1\<rparr>))
             else Inr (ino1, s1\<lparr>used_inos := iset_insert (used_inos s1) ino1 1\<rparr>))))"

text \<open>
  Modelled from the spec: the bufferlist and the \<open>::encode\<close>/\<open>::decode\<close> of the field
  types (include/encoding.h is not among the sources). The spec gives the binary form as
  the sequence version byte, instance, completed\_requests, prealloc\_inos, used\_inos; a
  bufferlist is the sequence of the fields encoded into it, and a \<open>::decode\<close> takes the
  next field, failing at the end of the buffer or on a field of another type.
\<close>

datatype bl_field =
    enc_u8 "8 word"
  | enc_inst entity_inst_t
  | enc_tids "tid_t set"
  | enc_inos "inodeno_t interval_set"

type_synonym bufferlist = "bl_field list"

datatype decode_error = end_of_buffer | malformed_input

fun decode_u8 :: "bufferlist \<Rightarrow> decode_error + (8 word \<times> bufferlist)" where
  "decode_u8 [] = Inl end_of_buffer"
| "decode_u8 (enc_u8 v # p) = Inr (v, p)"
| "decode_u8 (f # p) = Inl malformed_input"

fun decode_inst :: "bufferlist \<Rightarrow> decode_error + (entity_inst_t \<times> bufferlist)" where
  "decode_inst [] = Inl end_of_buffer"
| "decode_inst (enc_inst v # p) = Inr (v, p)"
| "decode_inst (f # p) = Inl malformed_input"

fun decode_tids :: "bufferlist \<Rightarrow> decode_error + (tid_t set \<times> bufferlist)" where
  "decode_tids [] = Inl end_of_buffer"
| "decode_tids (enc_tids v # p) = Inr (v, p)"
| "decode_tids (f # p) = Inl malformed_input"

fun decode_inos :: "bufferlist \<Rightarrow> decode_error + (inodeno_t interval_set \<times> bufferlist)" where
  "decode_inos [] = Inl end_of_buffer"
| "decode_inos (enc_inos v # p) = Inr (v, p)"
| "decode_inos (f # p) = Inl malformed_input"

definition encode :: "Session \<Rightarrow> bufferlist \<Rightarrow> bufferlist" where
  "encode s bl =
     (let v = 1;
          bl = bl @ [enc_u8 v];
          bl = bl @ [enc_inst (inst s)];
          bl = bl @ [enc_tids (completed_requests s)];
          bl = bl @ [enc_inos (prealloc_inos s)];
          bl = bl @ [enc_inos (used_inos s)]
      in bl)"

definition decode :: "Session \<Rightarrow> bufferlist \<Rightarrow> decode_error + (Session \<times> bufferlist)" where
  "decode s p =
     (case decode_u8 p of Inl e \<Rightarrow> Inl e | Inr (v, p) \<Rightarrow>
      case decode_inst p of Inl e \<Rightarrow> Inl e | Inr (i, p) \<Rightarrow>
      case decode_tids p of Inl e \<Rightarrow> Inl e | Inr (c, p) \<Rightarrow>
      case decode_inos p of Inl e \<Rightarrow> Inl e | Inr (pre, p) \<Rightarrow>
      case decode_inos p of Inl e \<Rightarrow> Inl e | Inr (used, p) \<Rightarrow>
        Inr (s\<lparr>inst := i, completed_requests := c,
                prealloc_inos := iset_insert_set pre used,
                used_inos := {}\<rparr>, p))"

section \<open>Sample values\<close>

text \<open>
  A stand-in for the hash and an LRU that is never full, for evaluating the model on
  concrete inputs: \<open>sample_ops\<close> counts references, grants every \<open>ref\<close> and allocates
  on every \<open>insert\<close>.
\<close>

definition sample_hash :: xxh64 where
  "sample_hash bytes sd = fold (\<lambda>c h. h * 31 + of_nat (of_char c)) bytes sd"

definition sample_ops :: "nat lru_ops" where
  "sample_ops =
     \<lparr>lru_ref = (\<lambda>l fh f. (True, Suc l)),
      lru_unref = (\<lambda>l fh f. l - 1),
      lru_insert = (\<lambda>l prototype. (lru_alloc, Suc l))\<rparr>"

text \<open>
  Modelled from the spec: \<open>RGWFileHandle::root_name\<close>, declared in the header and
  defined outside it; the spec hashes the name of the root as a single slash.
\<close>

definition root_name :: string where
  "root_name = ''/''"

definition sample_root :: "xxh64 \<Rightarrow> RGWFileHandle" where
  "sample_root XXH64 =
     init_rootfs XXH64 (root_name @ ''rgw_fs_inst-1'') root_name
       (RGWFileHandle_root 1 \<lparr>bucket = 0, object = 0\<rparr>)"

definition sample_fs :: "xxh64 \<Rightarrow> nat RGWLibFS" where
  "sample_fs XXH64 =
     \<lparr>root_fh = sample_root XXH64, fh_cache = [], fh_lru = 0, fs_inst = 1, fs_flags = 0\<rparr>"

text \<open>
  The handle at the end of a path of \<open>n\<close> components named d below the root, as \<open>n\<close>
  lookups create it one after the other.
\<close>

fun nested :: "xxh64 \<Rightarrow> nat \<Rightarrow> RGWFileHandle" where
  "nested XXH64 0 = sample_root XXH64"
| "nested XXH64 (Suc n) =
     RGWFileHandle_new 1 (nested XXH64 n) (lookup_fh_key XXH64 (nested XXH64 n) ''d'') ''d''
       FLAG_DIRECTORY"

text \<open>A bucket b below the root and a directory d in it.\<close>

definition sample_bucket :: "xxh64 \<Rightarrow> RGWFileHandle" where
  "sample_bucket XXH64 =
     RGWFileHandle_new 1 (sample_root XXH64) (lookup_fh_key XXH64 (sample_root XXH64) ''b'') ''b''
       FLAG_NONE"

definition sample_dir :: "xxh64 \<Rightarrow> RGWFileHandle" where
  "sample_dir XXH64 =
     RGWFileHandle_new 1 (sample_bucket XXH64) (lookup_fh_key XXH64 (sample_bucket XXH64) ''d'') ''d''
       FLAG_DIRECTORY"

text \<open>
  The handles the functions modelled here produce: the root, handles made by the public
  constructor below such a handle, and what \<open>open\<close> and \<open>add_marker\<close> make of them.
\<close>

inductive built :: "RGWFileHandle \<Rightarrow> bool" where
  built_root: "built (RGWFileHandle_root i hk0)"
| built_init: "built h \<Longrightarrow> built (init_rootfs XXH64 fsid nm h)"
| built_new: "built p \<Longrightarrow> built (RGWFileHandle_new i p k nm fl)"
| built_open: "built h \<Longrightarrow> built (fst (open h g))"
| built_marker: "built h \<Longrightarrow> built (add_marker h off m)"

section \<open>Properties\<close>

subsection \<open>Auxiliary facts\<close>

lemma flags_set_flags: "flags (set_flags f h) = f"
  by (simp add: set_flags_def)

lemma or_and_absorb_flag: "((x::uint32_t) OR f) AND f = f"
  by (simp add: bit_eq_iff bit_and_iff bit_or_iff)

lemma c_str_idem: "c_str (c_str s) = c_str s"
  by (simp add: c_str_def)

lemma c_str_no_NUL: "NUL \<notin> set s \<Longrightarrow> c_str s = s"
  by (auto simp add: c_str_def)

lemma c_str_samples:
  "c_str ''f'' = ''f''" "c_str ''d'' = ''d''" "c_str ''d/f'' = ''d/f''"
  "c_str ''d/d/f'' = ''d/d/f''" "c_str ''a'' = ''a''"
  by (simp_all add: c_str_def NUL_def)

lemma depth_new: "depth (RGWFileHandle_new i p k n fl) = depth p + 1"
  by (simp add: RGWFileHandle_new_def)

lemma fhk_new: "fhk (RGWFileHandle_new i p k n fl) = k"
  by (simp add: RGWFileHandle_new_def)

lemma flags_new:
  "flags (RGWFileHandle_new i p k n fl) = (if is_root p then fl OR FLAG_BUCKET else fl)"
  by (simp add: RGWFileHandle_new_def)

lemma name_new: "name (RGWFileHandle_new i p k n fl) = n"
  by (simp add: RGWFileHandle_new_def)

lemma parent_new: "parent (RGWFileHandle_new i p k n fl) = Some p"
  by (simp add: RGWFileHandle_new_def)

lemma variant_new: "variant_type (RGWFileHandle_new i p k n fl) = file_variant None"
  by (simp add: RGWFileHandle_new_def)

lemma segments_Some:
  "segments (Some h) =
     (if flags h AND FLAG_BUCKET \<noteq> 0 then [] else name h # segments (parent h))"
  by (cases h) simp

text \<open>The sample handles.\<close>

lemma depth_sample_root: "depth (sample_root H) = 0"
  by (simp add: sample_root_def init_rootfs_def RGWFileHandle_root_def Let_def)

lemma flags_sample_root: "flags (sample_root H) = FLAG_ROOT"
  by (simp add: sample_root_def init_rootfs_def RGWFileHandle_root_def Let_def)

lemma is_root_sample_root: "is_root (sample_root H)"
  by (simp add: is_root_def flags_sample_root FLAG_ROOT_def)

lemma flags_sample_bucket: "flags (sample_bucket H) = FLAG_BUCKET"
  by (simp add: sample_bucket_def flags_new is_root_sample_root FLAG_NONE_def)

lemma not_root_sample_bucket: "\<not> is_root (sample_bucket H)"
  by (simp add: is_root_def flags_sample_bucket FLAG_BUCKET_def FLAG_ROOT_def)

lemma flags_sample_dir: "flags (sample_dir H) = FLAG_DIRECTORY"
  by (simp add: sample_dir_def flags_new not_root_sample_bucket)

lemma depth_sample_dir: "depth (sample_dir H) = 2"
  by (simp add: sample_dir_def sample_bucket_def depth_new depth_sample_root)

lemma segments_sample_dir: "segments (Some (sample_dir H)) = [''d'']"
proof -
  have p: "parent (sample_dir H) = Some (sample_bucket H)" and n: "name (sample_dir H) = ''d''"
    by (simp_all add: sample_dir_def name_new parent_new)
  show ?thesis
    by (simp add: segments_Some p n flags_sample_dir flags_sample_bucket
        FLAG_DIRECTORY_def FLAG_BUCKET_def)
qed

lemma full_object_name_sample_dir: "full_object_name (sample_dir H) 1 = ''d''"
  by (simp add: full_object_name_def depth_sample_dir segments_sample_dir)

lemma make_key_name_sample_dir: "make_key_name (sample_dir H) s = ''d/'' @ c_str s"
  by (simp add: make_key_name_def full_object_name_sample_dir)

lemma depth_nested: "depth (nested H n) = of_nat n"
  by (induction n) (simp_all add: depth_new depth_sample_root)

text \<open>
  On the sample context, whose cache is empty and whose LRU always allocates, a lookup of
  d below the \<open>n\<close>-th nested handle creates the next one.
\<close>

lemma lookup_nested:
  "lookup_fh (Suc fuel) H sample_ops (sample_fs H) (nested H n) ''d'' FLAG_DIRECTORY
     = Some (sample_fs H\<lparr>fh_lru := 1,
                 fh_cache := [(lookup_fh_key H (nested H n) ''d'', nested H (Suc n))]\<rparr>,
             (Some (nested H (Suc n)), FLAG_NONE))"
  by (simp add: lookup_fh_def find_latch_def insert_latched_def fhk_new
      sample_fs_def sample_ops_def FLAG_CLOSED_def c_str_samples Let_def)

subsection \<open>The key of a lookup\<close>

text \<open>
  \<open>lookup_fh\<close> passes \<open>make_key_name(name)\<close>, not \<open>name\<close>, to \<open>make_fhk\<close>. Below a
  parent of depth at most 1 the two agree, and the key is the parent's object hash with
  the hash of the name.
\<close>

lemma lookup_fh_key_shallow:
  "depth p \<le> 1 \<Longrightarrow>
   lookup_fh_key H p n = \<lparr>bucket = object (fhk p), object = H (c_str n) seed\<rparr>
   \<and> lookup_fh_key H p n = make_fhk H p n"
  by (simp add: lookup_fh_key_def make_fhk_def make_key_name_def full_object_name_def
      fh_key_cstr_def c_str_idem word_le_nat_alt)

text \<open>
  A miss on an open context: when the LRU hands out an object, the new handle is returned
  and stands in the cache under the key of the lookup.
\<close>

lemma lookup_fh_miss:
  assumes "fs_flags fs AND FLAG_CLOSED = 0"
    and "find_latch (fh_cache fs) (lookup_fh_key H p n) = None"
    and "fst (lru_insert ops (fh_lru fs)
           (RGWFileHandle_new (fs_inst fs) p (lookup_fh_key H p n) (c_str n) c)) \<noteq> lru_null"
  shows "\<exists>fs'. lookup_fh (Suc fuel) H ops fs p n c
            = Some (fs', (Some (RGWFileHandle_new (fs_inst fs) p (lookup_fh_key H p n) (c_str n) c),
                          FLAG_NONE))
          \<and> find_latch (fh_cache fs') (lookup_fh_key H p n)
            = Some (RGWFileHandle_new (fs_inst fs) p (lookup_fh_key H p n) (c_str n) c)"
proof -
  let ?k = "lookup_fh_key H p n"
  let ?h = "RGWFileHandle_new (fs_inst fs) p ?k (c_str n) c"
  obtain out l where ins: "lru_insert ops (fh_lru fs) ?h = (out, l)"
    by (cases "lru_insert ops (fh_lru fs) ?h")
  with assms(3) have nn: "out \<noteq> lru_null" by simp
  show ?thesis
  proof (cases out)
    case lru_null
    with nn show ?thesis by simp
  next
    case lru_alloc
    with assms(1,2) ins show ?thesis
      by (simp add: lookup_fh_def find_latch_def insert_latched_def fhk_new Let_def)
  next
    case (lru_recycle victim)
    with assms(1,2) ins show ?thesis
      by (simp add: lookup_fh_def find_latch_def insert_latched_def fhk_new Let_def)
  qed
qed

text \<open>
  Whenever the retry loop returns, the handle it returns is the one the cache holds under
  the key of the lookup.
\<close>

lemma lookup_fh_retry_cached:
  "lookup_fh_retry fuel ops fs p nm k c = Some (fs', fh) \<Longrightarrow>
   find_latch (fh_cache fs') k = Some fh"
proof (induction fuel arbitrary: fs)
  case 0
  then show ?case by simp
next
  case (Suc fuel)
  show ?case
  proof (cases "find_latch (fh_cache fs) k")
    case (Some hit)
    obtain ok l where r: "lru_ref ops (fh_lru fs) hit lru_FLAG_INITIAL = (ok, l)"
      by (cases "lru_ref ops (fh_lru fs) hit lru_FLAG_INITIAL")
    show ?thesis
    proof (cases ok)
      case True
      with Suc.prems Some r show ?thesis by auto
    next
      case False
      with Suc.prems Some r
      have "lookup_fh_retry fuel ops (fs\<lparr>fh_lru := l\<rparr>) p nm k c = Some (fs', fh)"
        by simp
      then show ?thesis by (rule Suc.IH)
    qed
  next
    case None
    let ?h = "RGWFileHandle_new (fs_inst fs) p k nm c"
    obtain out l where r: "lru_insert ops (fh_lru fs) ?h = (out, l)"
      by (cases "lru_insert ops (fh_lru fs) ?h")
    show ?thesis
    proof (cases out)
      case lru_null
      with Suc.prems None r
      have "lookup_fh_retry fuel ops (fs\<lparr>fh_lru := l\<rparr>) p nm k c = Some (fs', fh)"
        by (simp add: Let_def)
      then show ?thesis by (rule Suc.IH)
    next
      case lru_alloc
      with Suc.prems None r show ?thesis
        by (auto simp add: Let_def find_latch_def insert_latched_def fhk_new)
    next
      case (lru_recycle victim)
      with Suc.prems None r show ?thesis
        by (auto simp add: Let_def find_latch_def insert_latched_def fhk_new)
    qed
  qed
qed

lemma lookup_fh_cached_under_key:
  "lookup_fh fuel H ops fs p n c = Some (fs', (Some fh, fl)) \<Longrightarrow>
   find_latch (fh_cache fs') (lookup_fh_key H p n) = Some fh"
  by (auto simp add: lookup_fh_def Let_def split: if_splits option.splits
      dest: lookup_fh_retry_cached)

text \<open>
  C1. Below the directory d of bucket b, a parent of depth 2, the lookup of f hashes the
  path d/d/f: \<open>make_key_name\<close> is applied once in \<open>lookup_fh\<close> and once more inside
  \<open>make_fhk\<close>. The key \<open>make_fhk\<close> gives for the name f hashes d/f. The new handle is
  cached under the former, and with the sample hash the two keys differ.
\<close>

theorem lookup_fh_key_below_directory:
  "lookup_fh_key H (sample_dir H) ''f''
     = \<lparr>bucket = object (fhk (sample_dir H)), object = H ''d/d/f'' seed\<rparr>
   \<and> make_fhk H (sample_dir H) ''f''
     = \<lparr>bucket = object (fhk (sample_dir H)), object = H ''d/f'' seed\<rparr>
   \<and> lookup_fh 1 H sample_ops (sample_fs H) (sample_dir H) ''f'' FLAG_NONE
     = Some (sample_fs H
               \<lparr>fh_lru := 1,
                fh_cache :=
                  [(\<lparr>bucket = object (fhk (sample_dir H)), object = H ''d/d/f'' seed\<rparr>,
                    RGWFileHandle_new 1 (sample_dir H)
                      \<lparr>bucket = object (fhk (sample_dir H)), object = H ''d/d/f'' seed\<rparr>
                      ''f'' FLAG_NONE)]\<rparr>,
             (Some (RGWFileHandle_new 1 (sample_dir H)
                      \<lparr>bucket = object (fhk (sample_dir H)), object = H ''d/d/f'' seed\<rparr>
                      ''f'' FLAG_NONE),
              FLAG_NONE))
   \<and> sample_hash ''d/d/f'' seed \<noteq> sample_hash ''d/f'' seed"
proof -
  have k: "lookup_fh_key H (sample_dir H) ''f''
      = \<lparr>bucket = object (fhk (sample_dir H)), object = H ''d/d/f'' seed\<rparr>"
    by (simp add: lookup_fh_key_def make_fhk_def depth_sample_dir make_key_name_sample_dir
        fh_key_cstr_def c_str_samples word_le_nat_alt)
  have m: "make_fhk H (sample_dir H) ''f''
      = \<lparr>bucket = object (fhk (sample_dir H)), object = H ''d/f'' seed\<rparr>"
    by (simp add: make_fhk_def depth_sample_dir make_key_name_sample_dir
        fh_key_cstr_def c_str_samples word_le_nat_alt)
  have l: "lookup_fh 1 H sample_ops (sample_fs H) (sample_dir H) ''f'' FLAG_NONE
     = Some (sample_fs H
               \<lparr>fh_lru := 1,
                fh_cache :=
                  [(lookup_fh_key H (sample_dir H) ''f'',
                    RGWFileHandle_new 1 (sample_dir H) (lookup_fh_key H (sample_dir H) ''f'')
                      ''f'' FLAG_NONE)]\<rparr>,
             (Some (RGWFileHandle_new 1 (sample_dir H) (lookup_fh_key H (sample_dir H) ''f'')
                      ''f'' FLAG_NONE),
              FLAG_NONE))"
    by (simp add: lookup_fh_def find_latch_def insert_latched_def fhk_new
        sample_fs_def sample_ops_def FLAG_CLOSED_def c_str_samples Let_def)
  have d: "sample_hash ''d/d/f'' seed \<noteq> sample_hash ''d/f'' seed"
    by (simp add: sample_hash_def seed_def)
  from k m l d show ?thesis by simp
qed

text \<open>
  C2. \<open>lookup_fh\<close> compares no depth with MAX\_DEPTH and has no result for a path that
  is too deep. For a parent of any depth: on a context that is not CLOSED, when the key
  of the lookup is not cached and the LRU hands out an object, \<open>lookup_fh\<close> returns the
  new handle with result flags FLAG\_NONE, the handle stands in the cache under that
  key, and its depth is the parent's depth plus one, modulo \<open>2^16\<close>.
\<close>

theorem lookup_fh_admits_any_depth:
  assumes "fs_flags fs AND FLAG_CLOSED = 0"
    and "find_latch (fh_cache fs) (lookup_fh_key H p n) = None"
    and "fst (lru_insert ops (fh_lru fs)
           (RGWFileHandle_new (fs_inst fs) p (lookup_fh_key H p n) (c_str n) c)) \<noteq> lru_null"
  shows "\<exists>fs' h. lookup_fh (Suc fuel) H ops fs p n c = Some (fs', (Some h, FLAG_NONE))
          \<and> find_latch (fh_cache fs') (lookup_fh_key H p n) = Some h
          \<and> unat (depth h) = (unat (depth p) + 1) mod 2 ^ 16"
proof -
  let ?h = "RGWFileHandle_new (fs_inst fs) p (lookup_fh_key H p n) (c_str n) c"
  from lookup_fh_miss [OF assms, of fuel]
  obtain fs' where r: "lookup_fh (Suc fuel) H ops fs p n c = Some (fs', (Some ?h, FLAG_NONE))"
    and f: "find_latch (fh_cache fs') (lookup_fh_key H p n) = Some ?h"
    by blast
  have d: "unat (depth ?h) = (unat (depth p) + 1) mod 2 ^ 16"
    by (simp add: depth_new unat_word_ariths)
  from r f d show ?thesis by blast
qed

theorem lookup_fh_admits_any_depth_witness:
  "fs_flags (sample_fs sample_hash) AND FLAG_CLOSED = 0
   \<and> find_latch (fh_cache (sample_fs sample_hash))
        (lookup_fh_key sample_hash (nested sample_hash 256) ''d'') = None
   \<and> fst (lru_insert sample_ops (fh_lru (sample_fs sample_hash))
        (RGWFileHandle_new (fs_inst (sample_fs sample_hash)) (nested sample_hash 256)
           (lookup_fh_key sample_hash (nested sample_hash 256) ''d'') (c_str ''d'')
           FLAG_DIRECTORY)) \<noteq> lru_null
   \<and> (\<exists>fs' h. lookup_fh 1 sample_hash sample_ops (sample_fs sample_hash)
                 (nested sample_hash 256) ''d'' FLAG_DIRECTORY
               = Some (fs', (Some h, FLAG_NONE))
             \<and> find_latch (fh_cache fs')
                 (lookup_fh_key sample_hash (nested sample_hash 256) ''d'') = Some h
             \<and> unat (depth h) = 257)"
proof -
  have a: "fs_flags (sample_fs sample_hash) AND FLAG_CLOSED = 0"
    by (simp add: sample_fs_def)
  have b: "find_latch (fh_cache (sample_fs sample_hash))
        (lookup_fh_key sample_hash (nested sample_hash 256) ''d'') = None"
    by (simp add: sample_fs_def find_latch_def)
  have c: "fst (lru_insert sample_ops (fh_lru (sample_fs sample_hash))
        (RGWFileHandle_new (fs_inst (sample_fs sample_hash)) (nested sample_hash 256)
           (lookup_fh_key sample_hash (nested sample_hash 256) ''d'') (c_str ''d'')
           FLAG_DIRECTORY)) \<noteq> lru_null"
    by (simp add: sample_ops_def)
  have d: "(unat (depth (nested sample_hash 256)) + 1) mod 2 ^ 16 = 257"
    by (simp add: depth_nested)
  from lookup_fh_admits_any_depth [OF a b c, of 0] d a b c show ?thesis
    by simp
qed

text \<open>
  The nested handle number 256 has depth MAX\_DEPTH. The lookup of d below it returns a
  handle of depth 257, and that handle is the one entry of the cache afterwards.
\<close>

theorem lookup_fh_beyond_max_depth:
  "depth (nested sample_hash 256) = MAX_DEPTH
   \<and> lookup_fh 1 sample_hash sample_ops (sample_fs sample_hash)
        (nested sample_hash 256) ''d'' FLAG_DIRECTORY
     = Some (sample_fs sample_hash
               \<lparr>fh_lru := 1,
                fh_cache := [(lookup_fh_key sample_hash (nested sample_hash 256) ''d'',
                              nested sample_hash (Suc 256))]\<rparr>,
             (Some (nested sample_hash (Suc 256)), FLAG_NONE))
   \<and> depth (nested sample_hash (Suc 256)) = 257
   \<and> MAX_DEPTH < depth (nested sample_hash (Suc 256))"
proof -
  have a: "depth (nested sample_hash 256) = MAX_DEPTH"
    by (simp add: depth_nested MAX_DEPTH_def)
  have b: "depth (nested sample_hash (Suc 256)) = 257"
    by (simp only: depth_nested) simp
  have c: "MAX_DEPTH < (257 :: uint16_t)"
    by (simp add: MAX_DEPTH_def word_less_nat_alt)
  from a b c lookup_nested [of 0 sample_hash 256] show ?thesis
    by (simp only: One_nat_def)
qed

subsection \<open>Keys from two names\<close>

text \<open>
  The two-string constructor reads the bucket name with the length of the object name:
  the bucket hash covers the first \<open>_o.length()\<close> bytes at \<open>_b.c_str()\<close>, and the read
  leaves the buffer when the object name is longer than the bucket name and its NUL.
\<close>

lemma fh_key_str_in_bounds:
  "length o_str \<le> length b_str + 1 \<Longrightarrow>
   fh_key_str H b_str o_str
     = Inr \<lparr>bucket = H (take (length o_str) (b_str @ [NUL])) seed, object = H o_str seed\<rparr>"
  by (simp add: fh_key_str_def read_c_str_def)

lemma fh_key_str_out_of_bounds:
  "length b_str + 1 < length o_str \<Longrightarrow> fh_key_str H b_str o_str = Inl OutOfBoundsRead"
  by (simp add: fh_key_str_def read_c_str_def)

text \<open>
  C3. For the bucket name ab and the object name c the bucket hash is the hash of the one
  byte a, not of ab; the object hash is the hash of c. With the sample hash the hashes of
  a and ab differ. For the bucket name a and the object name bcd the bucket hash reads
  past the end of the bucket name's buffer.
\<close>

theorem fh_key_str_hashes_bucket_prefix:
  "fh_key_str H ''ab'' ''c'' = Inr \<lparr>bucket = H ''a'' seed, object = H ''c'' seed\<rparr>
   \<and> sample_hash ''a'' seed \<noteq> sample_hash ''ab'' seed
   \<and> fh_key_str H ''a'' ''bcd'' = Inl OutOfBoundsRead"
  by (simp add: fh_key_str_def read_c_str_def sample_hash_def seed_def)

subsection \<open>Reading an object\<close>

text \<open>
  C4. A request for 10 bytes that is sent one buffer list of two buffers of 7 bytes ends
  with \<open>nread = 14\<close>; the second \<open>memcpy\<close> writes 7 bytes at offset 7 of the caller's
  buffer. The same request sent the two buffers in two calls ends with \<open>nread = 14\<close> as
  well. Each chunk is cut to \<open>read_len\<close>, not to what is left of it.
\<close>

theorem send_response_data_exceeds_read_len:
  "send_response_data (RGWReadRequest_new 0 10) [''1234567'', ''abcdefg''] 0 14
     = (\<lparr>nread = 14, read_len = 10, copies = [(0, 0, 7), (7, - 7, 7)]\<rparr>, 0)
   \<and> send_response_data
       (fst (send_response_data (RGWReadRequest_new 0 10) [''1234567''] 0 7)) [''abcdefg''] 0 7
     = (\<lparr>nread = 14, read_len = 10, copies = [(0, 0, 7), (0, 0, 7)]\<rparr>, 0)
   \<and> \<not> (14 :: size_t) \<le> 10"
  by (simp add: send_response_data_def RGWReadRequest_new_def bp_length_def word_le_nat_alt)

subsection \<open>Sessions\<close>

text \<open>
  C5. Decoding an encoded session \<open>s\<close> into any session \<open>s0\<close> succeeds, consumes exactly
  the encoding, and leaves \<open>prealloc_inos\<close> equal to the union of the \<open>prealloc_inos\<close>
  and \<open>used_inos\<close> of \<open>s\<close>, \<open>used_inos\<close> empty and \<open>completed_requests\<close> (and \<open>inst\<close>)
  as in \<open>s\<close>; the fields that are not encoded stay as in \<open>s0\<close>.
\<close>

theorem session_encode_decode:
  "decode s0 (encode s [] @ rest)
     = Inr (s0\<lparr>inst := inst s,
               completed_requests := completed_requests s,
               prealloc_inos := prealloc_inos s \<union> used_inos s,
               used_inos := {}\<rparr>, rest)"
  by (simp add: decode_def encode_def iset_insert_set_def)

text \<open>
  C6. \<open>take_ino\<close> fails with NO\_PREALLOC on an empty \<open>prealloc_inos\<close>. Otherwise it takes
  the hint when the hint is not zero and is in \<open>prealloc_inos\<close>, and the least element
  (\<open>start()\<close>) in every other case; the number taken is returned, leaves
  \<open>prealloc_inos\<close> alone and enters \<open>used_inos\<close>.
\<close>

theorem take_ino_spec:
  "take_ino s hint =
     (if prealloc_inos s = {} then Inl NO_PREALLOC
      else if hint \<noteq> 0 \<and> hint \<in> prealloc_inos s
      then Inr (hint, s\<lparr>prealloc_inos := prealloc_inos s - {hint},
                         used_inos := insert hint (used_inos s)\<rparr>)
      else Inr (Min (prealloc_inos s),
                s\<lparr>prealloc_inos := prealloc_inos s - {Min (prealloc_inos s)},
                  used_inos := insert (Min (prealloc_inos s)) (used_inos s)\<rparr>))
   \<and> iset_start (prealloc_inos s)
     = (if prealloc_inos s = {} then None else Some (Min (prealloc_inos s)))"
  by (auto simp add: take_ino_def iset_empty_def iset_contains_def iset_erase_def
      iset_insert_def iset_start_def Let_def)

subsection \<open>Opening a handle\<close>

text \<open>
  C7. On a handle without FLAG\_OPEN, \<open>open\<close> returns 0 and sets FLAG\_OPEN; opening the
  resulting handle again returns EPERM and leaves the handle, with its flags, as it was.
\<close>

theorem open_then_open_again:
  assumes "flags h AND FLAG_OPEN = 0"
  shows "snd (open h g) = 0
       \<and> flags (fst (open h g)) = flags h OR FLAG_OPEN
       \<and> flags (fst (open h g)) AND FLAG_OPEN \<noteq> 0
       \<and> open (fst (open h g)) g' = (fst (open h g), EPERM)"
  using assms
  by (simp add: open_def flags_set_flags or_and_absorb_flag FLAG_OPEN_def)

theorem open_then_open_again_witness:
  "flags (RGWFileHandle_root 1 \<lparr>bucket = 0, object = 0\<rparr>) AND FLAG_OPEN = 0
   \<and> snd (open (RGWFileHandle_root 1 \<lparr>bucket = 0, object = 0\<rparr>) 0) = 0
   \<and> flags (fst (open (RGWFileHandle_root 1 \<lparr>bucket = 0, object = 0\<rparr>) 0)) = 3
   \<and> open (fst (open (RGWFileHandle_root 1 \<lparr>bucket = 0, object = 0\<rparr>) 0)) 0
       = (fst (open (RGWFileHandle_root 1 \<lparr>bucket = 0, object = 0\<rparr>) 0), EPERM)"
proof -
  have h: "flags (RGWFileHandle_root 1 \<lparr>bucket = 0, object = 0\<rparr>) AND FLAG_OPEN = 0"
    by (simp add: RGWFileHandle_root_def FLAG_ROOT_def FLAG_OPEN_def)
  show ?thesis
    using h open_then_open_again [OF h, of 0 0]
    by (simp add: RGWFileHandle_root_def FLAG_ROOT_def FLAG_OPEN_def)
qed

subsection \<open>A closed context\<close>

lemma closed_lookup_fh:
  "fs_flags fs AND FLAG_CLOSED \<noteq> 0 \<Longrightarrow>
   lookup_fh fuel H ops fs p n c = Some (fs, (None, FLAG_NONE))"
  by (simp add: lookup_fh_def)

lemma closed_lookup_handle:
  "fs_flags fs AND FLAG_CLOSED \<noteq> 0 \<Longrightarrow> lookup_handle fuel ops fs k = Some (fs, None)"
  by (simp add: lookup_handle_def)

lemma closed_serve:
  "fs_flags fs AND FLAG_CLOSED \<noteq> 0 \<Longrightarrow> serve fuel H ops fs r = Some (fs, None)"
  by (cases r) (simp_all add: closed_lookup_fh closed_lookup_handle)

lemma closed_serve_all:
  "fs_flags fs AND FLAG_CLOSED \<noteq> 0 \<Longrightarrow>
   serve_all fuel H ops fs rs = Some (fs, replicate (length rs) None)"
  by (induction rs) (simp_all add: closed_serve)

lemma close_sets_closed: "fs_flags (close ops fs) AND FLAG_CLOSED = FLAG_CLOSED"
  by (simp add: close_def or_and_absorb_flag)

lemma FLAG_CLOSED_nonzero: "FLAG_CLOSED \<noteq> 0"
  by (simp add: FLAG_CLOSED_def)

text \<open>No operation of the context clears FLAG\_CLOSED or fills the cache of a closed context.\<close>

lemma closed_persists:
  "fs_flags (unref ops fs fh) = fs_flags fs"
  "fh_cache (unref ops fs fh) = fh_cache fs"
  "fs_flags (fst (ref ops fs fh)) = fs_flags fs"
  "fh_cache (fst (ref ops fs fh)) = fh_cache fs"
  "fs_flags (close ops (close ops fs)) = fs_flags (close ops fs)"
  "fh_cache (close ops (close ops fs)) = []"
  by (simp_all add: unref_def ref_def close_def bit_eq_iff bit_or_iff)

text \<open>
  C8. After \<open>close\<close> the context has FLAG\_CLOSED set and an empty cache. Every
  \<open>lookup_fh\<close> and every \<open>lookup_handle\<close> on it returns, with any fuel, a null handle
  and the context as it was; so does every sequence of such requests, whose results are
  all null and which leaves the cache empty.
\<close>

theorem closed_context_returns_null:
  "fs_flags (close ops fs) AND FLAG_CLOSED = FLAG_CLOSED
   \<and> fh_cache (close ops fs) = []
   \<and> lookup_fh fuel H ops (close ops fs) p n c = Some (close ops fs, (None, FLAG_NONE))
   \<and> lookup_handle fuel ops (close ops fs) k = Some (close ops fs, None)
   \<and> serve_all fuel H ops (close ops fs) rs = Some (close ops fs, replicate (length rs) None)"
proof -
  have c: "fs_flags (close ops fs) AND FLAG_CLOSED \<noteq> 0"
    by (simp add: close_sets_closed FLAG_CLOSED_nonzero)
  have e: "fh_cache (close ops fs) = []"
    by (simp add: close_def)
  show ?thesis
    using c e close_sets_closed closed_lookup_fh closed_lookup_handle closed_serve_all
    by blast
qed

subsection \<open>The marker cache\<close>

text \<open>
  No constructor assigns \<open>variant_type\<close>, so every handle that is built holds the
  \<open>file\<close> alternative, whatever its \<open>fh_type\<close>: \<open>add_marker\<close> leaves it as it is and
  \<open>find_marker\<close> returns the empty string.
\<close>

lemma add_marker_file:
  "variant_type h = file_variant w \<Longrightarrow> add_marker h off m = h"
  by (simp add: add_marker_def)

lemma find_marker_file:
  "variant_type h = file_variant w \<Longrightarrow> find_marker h off = []"
  by (simp add: find_marker_def)

lemma variant_open: "variant_type (fst (open h g)) = variant_type h"
  by (simp add: open_def set_flags_def)

lemma built_holds_file: "built h \<Longrightarrow> variant_type h = file_variant None"
proof (induction rule: built.induct)
  case (built_root i hk0)
  show ?case by (simp add: RGWFileHandle_root_def)
next
  case (built_init h XXH64 fsid nm)
  then show ?case by (simp add: init_rootfs_def Let_def)
next
  case (built_new p i k nm fl)
  show ?case by (rule variant_new)
next
  case (built_open h g)
  then show ?case by (simp add: variant_open)
next
  case (built_marker h off m)
  then show ?case by (simp add: add_marker_file)
qed

lemma built_handle_holds_no_marker:
  "built h \<Longrightarrow> add_marker h off m = h \<and> find_marker (add_marker h off m) off = []"
  by (simp add: add_marker_file find_marker_file built_holds_file)

lemma built_sample_bucket: "built (sample_bucket H)"
  unfolding sample_bucket_def sample_root_def
  by (intro built_new built_init built_root)

lemma is_dir_sample_bucket: "is_dir (sample_bucket H)"
  by (simp add: is_dir_def sample_bucket_def RGWFileHandle_new_def is_root_sample_root)

text \<open>
  C9. On a handle fresh from the public constructor, \<open>find_marker(off)\<close> after
  \<open>add_marker(off, m)\<close> returns the empty string for every offset and marker. So it does
  on the bucket b, a handle of type DIRECTORY, at offset 5 with the marker a: the marker
  is not stored and is not found.
\<close>

theorem add_marker_on_constructed_handle:
  "add_marker (RGWFileHandle_new i p k n fl) off m = RGWFileHandle_new i p k n fl
   \<and> find_marker (add_marker (RGWFileHandle_new i p k n fl) off m) off = []
   \<and> is_dir (sample_bucket H)
   \<and> add_marker (sample_bucket H) 5 (string_ref_of ''a'') = sample_bucket H
   \<and> find_marker (add_marker (sample_bucket H) 5 (string_ref_of ''a'')) 5 = []
   \<and> find_marker (add_marker (sample_bucket H) 5 (string_ref_of ''a'')) 5 \<noteq> ''a''"
proof -
  have a: "add_marker (RGWFileHandle_new i p k n fl) off m = RGWFileHandle_new i p k n fl"
    by (simp add: add_marker_file variant_new)
  have b: "find_marker (RGWFileHandle_new i p k n fl) off = []"
    by (simp add: find_marker_file variant_new)
  have c: "add_marker (sample_bucket H) 5 (string_ref_of ''a'') = sample_bucket H"
    by (simp add: sample_bucket_def add_marker_file variant_new)
  have d: "find_marker (sample_bucket H) 5 = []"
    by (simp add: sample_bucket_def find_marker_file variant_new)
  from a b c d is_dir_sample_bucket [of H] show ?thesis by simp
qed

subsection \<open>The constructor\<close>

text \<open>
  C10. A handle constructed below a root parent has type DIRECTORY and FLAG\_BUCKET,
  whatever flags were passed. Below any other parent its bucket pointer is the parent
  when the parent has FLAG\_BUCKET and the parent's bucket pointer otherwise. Its depth is
  the parent's depth plus one modulo \<open>2^16\<close>: the parent's depth plus one for every
  parent of depth below 65535.
\<close>

theorem ctor_bucket_and_depth:
  "(is_root p \<longrightarrow>
      fh_type (RGWFileHandle_new i p k n fl) = RGW_FS_TYPE_DIRECTORY
      \<and> is_bucket (RGWFileHandle_new i p k n fl))
   \<and> (\<not> is_root p \<longrightarrow>
      bucket_ptr (RGWFileHandle_new i p k n fl) = (if is_bucket p then Some p else bucket_ptr p))
   \<and> unat (depth (RGWFileHandle_new i p k n fl)) = (unat (depth p) + 1) mod 2 ^ 16
   \<and> (unat (depth p) < 65535 \<longrightarrow>
      unat (depth (RGWFileHandle_new i p k n fl)) = unat (depth p) + 1)"
proof -
  have d: "unat (depth (RGWFileHandle_new i p k n fl)) = (unat (depth p) + 1) mod 2 ^ 16"
    by (simp add: depth_new unat_word_ariths)
  have b: "is_root p \<Longrightarrow> is_bucket (RGWFileHandle_new i p k n fl)"
    by (simp add: RGWFileHandle_new_def is_bucket_def or_and_absorb_flag FLAG_BUCKET_def)
  have t: "is_root p \<Longrightarrow> fh_type (RGWFileHandle_new i p k n fl) = RGW_FS_TYPE_DIRECTORY"
    by (simp add: RGWFileHandle_new_def)
  have q: "\<not> is_root p \<Longrightarrow>
      bucket_ptr (RGWFileHandle_new i p k n fl) = (if is_bucket p then Some p else bucket_ptr p)"
    by (simp add: RGWFileHandle_new_def is_bucket_def)
  from d have e: "unat (depth p) < 65535 \<Longrightarrow>
      unat (depth (RGWFileHandle_new i p k n fl)) = unat (depth p) + 1"
    by simp
  from d b t q e show ?thesis by blast
qed

theorem ctor_bucket_and_depth_witness:
  "is_root (sample_root sample_hash)
   \<and> fh_type (sample_bucket sample_hash) = RGW_FS_TYPE_DIRECTORY
   \<and> is_bucket (sample_bucket sample_hash)
   \<and> \<not> is_root (sample_bucket sample_hash)
   \<and> bucket_ptr (sample_dir sample_hash) = Some (sample_bucket sample_hash)
   \<and> unat (depth (sample_bucket sample_hash)) < 65535
   \<and> unat (depth (sample_dir sample_hash)) = 2"
proof -
  have r: "is_root (sample_root sample_hash)"
    by (rule is_root_sample_root)
  have nr: "\<not> is_root (sample_bucket sample_hash)"
    by (rule not_root_sample_bucket)
  have d: "unat (depth (sample_bucket sample_hash)) < 65535"
    by (simp add: sample_bucket_def depth_new depth_sample_root)
  have ib: "is_bucket (sample_bucket sample_hash)"
    by (simp add: is_bucket_def flags_sample_bucket FLAG_BUCKET_def)
  from r nr d ib
    ctor_bucket_and_depth [of "sample_root sample_hash" 1
      "lookup_fh_key sample_hash (sample_root sample_hash) ''b''" "''b''" FLAG_NONE]
    ctor_bucket_and_depth [of "sample_bucket sample_hash" 1
      "lookup_fh_key sample_hash (sample_bucket sample_hash) ''d''" "''d''" FLAG_DIRECTORY]
  show ?thesis
    by (simp add: sample_bucket_def [symmetric] sample_dir_def [symmetric] depth_sample_dir)
qed

text \<open>
  The nested handle number 65535 has depth 65535; a handle constructed below it has depth
  0, not 65536.
\<close>

theorem ctor_depth_wraps:
  "unat (depth (nested sample_hash 65535)) = 65535
   \<and> unat (depth (RGWFileHandle_new 1 (nested sample_hash 65535)
                    \<lparr>bucket = 0, object = 0\<rparr> ''d'' FLAG_NONE)) = 0
   \<and> unat (depth (RGWFileHandle_new 1 (nested sample_hash 65535)
                    \<lparr>bucket = 0, object = 0\<rparr> ''d'' FLAG_NONE))
       \<noteq> unat (depth (nested sample_hash 65535)) + 1"
  by (simp add: depth_new depth_nested)

end
